theory Spec2Isabelle
  imports Main
begin

section \<open>Resource profiles and their builder (python/pyspark/resource/profile.py)\<close>

text \<open>
  The module defines two classes. A \<open>ResourceProfileBuilder\<close> accumulates executor and
  task requirements, either in two Python dictionaries it owns (no JVM present when it
  was constructed) or in a builder object living in the JVM. A \<open>ResourceProfile\<close> is what
  \<open>build\<close> returns. Dictionaries and builders are mutable Python objects, so they live
  in an explicit store indexed by addresses; every method takes the store and returns
  the updated one. The store keeps the dictionaries by their annotated type, executor
  dictionaries apart from task dictionaries. Exceptions are values of type \<open>error\<close>.
\<close>

subsection \<open>Values\<close>

type_synonym addr = nat

datatype error =
    RuntimeError string
  | AttributeError string
  | Py4JError string

text \<open>
  Modelled from the spec: the request value types of \<open>pyspark.resource.requests\<close>, which
  profile.py imports but which is not among the sources. The spec gives them as
  \<open>TaskResourceRequest{resourceName, amount}\<close> and
  \<open>ExecutorResourceRequest{resourceName, amount, discoveryScript, vendor}\<close>. The amount
  is only carried around by this module, never computed on.
\<close>

record TaskResourceRequest =
  task_resourceName :: string
  task_amount :: int

record ExecutorResourceRequest =
  exec_resourceName :: string
  exec_amount :: int
  exec_discoveryScript :: string
  exec_vendor :: string

definition TaskResourceRequest_init :: "string \<Rightarrow> int \<Rightarrow> TaskResourceRequest" where
  "TaskResourceRequest_init name amount =
     \<lparr>task_resourceName = name, task_amount = amount\<rparr>"

definition ExecutorResourceRequest_init ::
    "string \<Rightarrow> int \<Rightarrow> string \<Rightarrow> string \<Rightarrow> ExecutorResourceRequest" where
  "ExecutorResourceRequest_init name amount script vendor =
     \<lparr>exec_resourceName = name, exec_amount = amount,
      exec_discoveryScript = script, exec_vendor = vendor\<rparr>"

text \<open>A \<open>Dict[str, TaskResourceRequest]\<close> and a \<open>Dict[str, ExecutorResourceRequest]\<close>.\<close>

type_synonym task_dict = "string \<rightharpoonup> TaskResourceRequest"
type_synonym exec_dict = "string \<rightharpoonup> ExecutorResourceRequest"

subsection \<open>The JVM side\<close>

text \<open>
  Modelled from the spec: the objects behind the py4j handles (the spec's
  \<open>RemoteSchedulingEngine\<close>), whose code is not among the sources. The spec says that the
  remote builder mirrors \<open>require\<close>, the two clears, the two read accessors and \<open>build\<close>,
  and that the remote profile reports an engine-assigned identity and its two maps.
\<close>

text \<open>
  Modelled from the spec: the JVM view \<open>SparkContext._jvm\<close>, through which a requirement
  group without a handle is turned into a remote one. The spec says that a delegated
  operation which cannot complete against the engine raises (its \<open>BridgeError\<close>, py4j's
  \<open>Py4JError\<close>) and that the error is surfaced. Which requirement maps the engine takes
  is a matter of the engine, so it is a parameter of the view: none when the session is
  torn down, and for a running JVM those whose amounts its number types can hold.
\<close>

record jvm =
  jvm_takes_task_requests :: "task_dict \<Rightarrow> bool"
  jvm_takes_executor_requests :: "exec_dict \<Rightarrow> bool"

record JTaskResourceRequest =
  jtask_resourceName :: string
  jtask_amount :: int

record JExecutorResourceRequest =
  jexec_resourceName :: string
  jexec_amount :: int
  jexec_discoveryScript :: string
  jexec_vendor :: string

type_synonym jtask_map = "string \<rightharpoonup> JTaskResourceRequest"
type_synonym jexec_map = "string \<rightharpoonup> JExecutorResourceRequest"

record JavaResourceProfile =
  jprofile_id :: int
  jprofile_executorResourcesJMap :: jexec_map
  jprofile_taskResourcesJMap :: jtask_map

record JavaResourceProfileBuilder =
  jbuilder_executorResourcesJMap :: jexec_map
  jbuilder_taskResourcesJMap :: jtask_map

definition to_jtask :: "TaskResourceRequest \<Rightarrow> JTaskResourceRequest" where
  "to_jtask v = \<lparr>jtask_resourceName = task_resourceName v, jtask_amount = task_amount v\<rparr>"

definition to_jexec :: "ExecutorResourceRequest \<Rightarrow> JExecutorResourceRequest" where
  "to_jexec v =
     \<lparr>jexec_resourceName = exec_resourceName v, jexec_amount = exec_amount v,
      jexec_discoveryScript = exec_discoveryScript v, jexec_vendor = exec_vendor v\<rparr>"

subsection \<open>Requirement groups and the argument of \<open>require\<close>\<close>

text \<open>
  Modelled from the spec: the grouping accumulators \<open>TaskResourceRequests{requests}\<close> and
  \<open>ExecutorResourceRequests{requests}\<close> of the absent \<open>pyspark.resource.requests\<close>. A
  group is local-only or remote-backed; profile.py reads its attributes
  \<open>_java_task_resource_requests\<close> (respectively \<open>_java_executor_resource_requests\<close>) and
  \<open>requests\<close>, and constructs one from a JVM view and a plain requirement map. The
  construction goes over the bridge: it gives a group with a handle when the view takes
  the map, and raises otherwise.
\<close>

record TaskResourceRequests =
  java_task_resource_requests :: "jtask_map option"
  task_requests :: task_dict

record ExecutorResourceRequests =
  java_executor_resource_requests :: "jexec_map option"
  exec_requests :: exec_dict

definition TaskResourceRequests_init ::
    "jvm \<Rightarrow> task_dict \<Rightarrow> error + TaskResourceRequests" where
  "TaskResourceRequests_init j reqs =
     (if jvm_takes_task_requests j reqs
      then Inr \<lparr>java_task_resource_requests = Some (map_option to_jtask \<circ> reqs),
                task_requests = reqs\<rparr>
      else Inl (Py4JError ''TaskResourceRequests''))"

definition ExecutorResourceRequests_init ::
    "jvm \<Rightarrow> exec_dict \<Rightarrow> error + ExecutorResourceRequests" where
  "ExecutorResourceRequests_init j reqs =
     (if jvm_takes_executor_requests j reqs
      then Inr \<lparr>java_executor_resource_requests = Some (map_option to_jexec \<circ> reqs),
                exec_requests = reqs\<rparr>
      else Inl (Py4JError ''ExecutorResourceRequests''))"

text \<open>
  The objects \<open>require\<close> can be handed: the declared type is
  \<open>Union[ExecutorResourceRequest, TaskResourceRequests]\<close>, and the executor branch is
  written for an \<open>ExecutorResourceRequests\<close> group. A single \<open>ExecutorResourceRequest\<close>
  has the four fields above and neither a \<open>requests\<close> mapping nor a JVM handle.
\<close>

datatype resourceRequest =
    TaskResourceRequests_obj TaskResourceRequests
  | ExecutorResourceRequests_obj ExecutorResourceRequests
  | ExecutorResourceRequest_obj ExecutorResourceRequest

fun isinstance_TaskResourceRequests :: "resourceRequest \<Rightarrow> bool" where
  "isinstance_TaskResourceRequests (TaskResourceRequests_obj g) = True"
| "isinstance_TaskResourceRequests (ExecutorResourceRequests_obj g) = False"
| "isinstance_TaskResourceRequests (ExecutorResourceRequest_obj r) = False"

subsection \<open>Objects and the store\<close>

text \<open>
  \<open>ResourceProfile.__init__\<close> sets \<open>_java_resource_profile\<close> alone when a handle is given,
  and \<open>_java_resource_profile = None\<close> with the two dictionary references otherwise. No
  method assigns a field of a profile afterwards, so a profile is a value; the
  dictionaries it refers to are in the store.
\<close>

datatype ResourceProfile =
    JavaProfile JavaResourceProfile
  | LocalProfile addr addr

text \<open>
  \<open>ResourceProfileBuilder.__init__\<close> sets \<open>_jvm\<close> and \<open>_java_resource_profile_builder\<close>, or
  both to \<open>None\<close> with \<open>_executor_resource_requests\<close> and \<open>_task_resource_requests\<close>
  (in this order in \<open>LocalBuilder\<close>).
\<close>

datatype ResourceProfileBuilder =
    JavaBuilder jvm addr
  | LocalBuilder addr addr

record heap =
  SparkContext_jvm :: "jvm option"
  builders :: "addr \<Rightarrow> ResourceProfileBuilder"
  exec_dicts :: "addr \<Rightarrow> exec_dict"
  task_dicts :: "addr \<Rightarrow> task_dict"
  jbuilders :: "addr \<Rightarrow> JavaResourceProfileBuilder"
  next_addr :: addr
  next_profile_id :: int

text \<open>Creating a dictionary object (\<open>{}\<close>, or \<open>result = {}\<close> filled by a loop).\<close>

definition new_exec_dict :: "exec_dict \<Rightarrow> heap \<Rightarrow> addr \<times> heap" where
  "new_exec_dict d s =
     (next_addr s,
      s\<lparr>exec_dicts := (exec_dicts s)(next_addr s := d), next_addr := Suc (next_addr s)\<rparr>)"

definition new_task_dict :: "task_dict \<Rightarrow> heap \<Rightarrow> addr \<times> heap" where
  "new_task_dict d s =
     (next_addr s,
      s\<lparr>task_dicts := (task_dicts s)(next_addr s := d), next_addr := Suc (next_addr s)\<rparr>)"

text \<open>
  \<open>_exec_req or {}\<close> and \<open>_task_req or {}\<close>: \<open>None\<close> and the empty dictionary are falsy and
  give a new dictionary, a non-empty dictionary is kept as the object it is.
\<close>

definition exec_req_or_new :: "addr option \<Rightarrow> heap \<Rightarrow> addr \<times> heap" where
  "exec_req_or_new r s =
     (case r of
        None \<Rightarrow> new_exec_dict Map.empty s
      | Some a \<Rightarrow> if exec_dicts s a = Map.empty then new_exec_dict Map.empty s else (a, s))"

definition task_req_or_new :: "addr option \<Rightarrow> heap \<Rightarrow> addr \<times> heap" where
  "task_req_or_new r s =
     (case r of
        None \<Rightarrow> new_task_dict Map.empty s
      | Some a \<Rightarrow> if task_dicts s a = Map.empty then new_task_dict Map.empty s else (a, s))"

subsection \<open>ResourceProfile\<close>

definition ResourceProfile_init ::
    "JavaResourceProfile option \<Rightarrow> addr option \<Rightarrow> addr option \<Rightarrow> heap
      \<Rightarrow> ResourceProfile \<times> heap" where
  "ResourceProfile_init java_resource_profile exec_req task_req s =
     (case java_resource_profile of
        Some jrp \<Rightarrow> (JavaProfile jrp, s)
      | None \<Rightarrow>
          (let (e, s1) = exec_req_or_new exec_req s;
               (t, s2) = task_req_or_new task_req s1
           in (LocalProfile e t, s2)))"

text \<open>
  The message of the \<open>RuntimeError\<close> that \<open>id\<close> raises on a profile without a handle; the
  spec calls this error \<open>NotRegisteredError\<close>.
\<close>

definition NotRegisteredError :: error where
  "NotRegisteredError =
     RuntimeError (''SparkContext must be created to get the id, get the id '' @
                   ''after adding the ResourceProfile to an RDD'')"

fun ResourceProfile_id :: "ResourceProfile \<Rightarrow> error + int" where
  "ResourceProfile_id (JavaProfile jrp) = Inr (jprofile_id jrp)"
| "ResourceProfile_id (LocalProfile e t) = Inl NotRegisteredError"

fun ResourceProfile_taskResources :: "ResourceProfile \<Rightarrow> heap \<Rightarrow> addr \<times> heap" where
  "ResourceProfile_taskResources (JavaProfile jrp) s =
     new_task_dict
       (\<lambda>k. map_option (\<lambda>v. TaskResourceRequest_init (jtask_resourceName v) (jtask_amount v))
              (jprofile_taskResourcesJMap jrp k)) s"
| "ResourceProfile_taskResources (LocalProfile e t) s = (t, s)"

fun ResourceProfile_executorResources :: "ResourceProfile \<Rightarrow> heap \<Rightarrow> addr \<times> heap" where
  "ResourceProfile_executorResources (JavaProfile jrp) s =
     new_exec_dict
       (\<lambda>k. map_option
              (\<lambda>v. ExecutorResourceRequest_init (jexec_resourceName v) (jexec_amount v)
                     (jexec_discoveryScript v) (jexec_vendor v))
              (jprofile_executorResourcesJMap jrp k)) s"
| "ResourceProfile_executorResources (LocalProfile e t) s = (e, s)"

subsection \<open>ResourceProfileBuilder\<close>

text \<open>
  Modelled from the spec: the operations of the JVM builder, absent from the sources.
  They mirror the local ones on the JVM builder at address \<open>jb\<close>; the profile that the
  JVM \<open>build\<close> returns carries the next identity the engine assigns.
\<close>

definition jbuilder_new :: "heap \<Rightarrow> addr \<times> heap" where
  "jbuilder_new s =
     (next_addr s,
      s\<lparr>jbuilders := (jbuilders s)(next_addr s :=
            \<lparr>jbuilder_executorResourcesJMap = Map.empty,
             jbuilder_taskResourcesJMap = Map.empty\<rparr>),
        next_addr := Suc (next_addr s)\<rparr>)"

definition jbuilder_require_task :: "addr \<Rightarrow> jtask_map \<Rightarrow> heap \<Rightarrow> heap" where
  "jbuilder_require_task jb reqs s =
     s\<lparr>jbuilders := (jbuilders s)(jb := (jbuilders s jb)
          \<lparr>jbuilder_taskResourcesJMap := jbuilder_taskResourcesJMap (jbuilders s jb) ++ reqs\<rparr>)\<rparr>"

definition jbuilder_require_exec :: "addr \<Rightarrow> jexec_map \<Rightarrow> heap \<Rightarrow> heap" where
  "jbuilder_require_exec jb reqs s =
     s\<lparr>jbuilders := (jbuilders s)(jb := (jbuilders s jb)
          \<lparr>jbuilder_executorResourcesJMap :=
             jbuilder_executorResourcesJMap (jbuilders s jb) ++ reqs\<rparr>)\<rparr>"

definition jbuilder_clearExecutorResourceRequests :: "addr \<Rightarrow> heap \<Rightarrow> heap" where
  "jbuilder_clearExecutorResourceRequests jb s =
     s\<lparr>jbuilders := (jbuilders s)(jb := (jbuilders s jb)
          \<lparr>jbuilder_executorResourcesJMap := Map.empty\<rparr>)\<rparr>"

definition jbuilder_clearTaskResourceRequests :: "addr \<Rightarrow> heap \<Rightarrow> heap" where
  "jbuilder_clearTaskResourceRequests jb s =
     s\<lparr>jbuilders := (jbuilders s)(jb := (jbuilders s jb)
          \<lparr>jbuilder_taskResourcesJMap := Map.empty\<rparr>)\<rparr>"

definition jbuilder_build :: "addr \<Rightarrow> heap \<Rightarrow> JavaResourceProfile \<times> heap" where
  "jbuilder_build jb s =
     (\<lparr>jprofile_id = next_profile_id s,
       jprofile_executorResourcesJMap = jbuilder_executorResourcesJMap (jbuilders s jb),
       jprofile_taskResourcesJMap = jbuilder_taskResourcesJMap (jbuilders s jb)\<rparr>,
      s\<lparr>next_profile_id := next_profile_id s + 1\<rparr>)"

text \<open>
  \<open>__init__\<close>: the new builder object takes the next address; with a JVM it gets a new
  JVM builder, without one it gets two new empty dictionaries.
\<close>

definition ResourceProfileBuilder_init :: "heap \<Rightarrow> addr \<times> heap" where
  "ResourceProfileBuilder_init s =
     (let self = next_addr s;
          s0 = s\<lparr>next_addr := Suc self\<rparr>
      in case SparkContext_jvm s of
           Some j \<Rightarrow>
             (let (jb, s1) = jbuilder_new s0
              in (self, s1\<lparr>builders := (builders s1)(self := JavaBuilder j jb)\<rparr>))
         | None \<Rightarrow>
             (let (e, s1) = new_exec_dict Map.empty s0;
                  (t, s2) = new_task_dict Map.empty s1
              in (self, s2\<lparr>builders := (builders s2)(self := LocalBuilder e t)\<rparr>)))"

text \<open>
  \<open>require\<close>. The first equation is the branch \<open>isinstance(resourceRequest,
  TaskResourceRequests)\<close>; the other two are the \<open>else\<close> branch, once for an object that has
  the attributes \<open>_java_executor_resource_requests\<close> and \<open>requests\<close> and once for a bare
  \<open>ExecutorResourceRequest\<close>, which has neither, so that the first attribute the branch
  reads raises \<open>AttributeError\<close>. \<open>dict.update\<close> is \<open>++\<close> on the dictionary in place.
  On a JVM builder a group without a handle is first constructed anew from its
  \<open>requests\<close> with the builder's JVM view; nothing catches what that construction raises,
  so \<open>require\<close> raises it. The group so constructed has a handle; were it \<open>None\<close>, py4j
  would report the null argument.
\<close>

fun ResourceProfileBuilder_require ::
    "addr \<Rightarrow> resourceRequest \<Rightarrow> heap \<Rightarrow> error + (addr \<times> heap)" where
  "ResourceProfileBuilder_require self (TaskResourceRequests_obj rr) s =
     (case builders s self of
        JavaBuilder j jb \<Rightarrow>
          (case java_task_resource_requests rr of
             Some h \<Rightarrow> Inr (self, jbuilder_require_task jb h s)
           | None \<Rightarrow>
               (case TaskResourceRequests_init j (task_requests rr) of
                  Inl err \<Rightarrow> Inl err
                | Inr taskReqs \<Rightarrow>
                    (case java_task_resource_requests taskReqs of
                       Some h \<Rightarrow> Inr (self, jbuilder_require_task jb h s)
                     | None \<Rightarrow> Inl (Py4JError ''require''))))
      | LocalBuilder e t \<Rightarrow>
          Inr (self, s\<lparr>task_dicts := (task_dicts s)(t := task_dicts s t ++ task_requests rr)\<rparr>))"
| "ResourceProfileBuilder_require self (ExecutorResourceRequests_obj rr) s =
     (case builders s self of
        JavaBuilder j jb \<Rightarrow>
          (case java_executor_resource_requests rr of
             Some h \<Rightarrow> Inr (self, jbuilder_require_exec jb h s)
           | None \<Rightarrow>
               (case ExecutorResourceRequests_init j (exec_requests rr) of
                  Inl err \<Rightarrow> Inl err
                | Inr execReqs \<Rightarrow>
                    (case java_executor_resource_requests execReqs of
                       Some h \<Rightarrow> Inr (self, jbuilder_require_exec jb h s)
                     | None \<Rightarrow> Inl (Py4JError ''require''))))
      | LocalBuilder e t \<Rightarrow>
          Inr (self, s\<lparr>exec_dicts := (exec_dicts s)(e := exec_dicts s e ++ exec_requests rr)\<rparr>))"
| "ResourceProfileBuilder_require self (ExecutorResourceRequest_obj r) s =
     (case builders s self of
        JavaBuilder j jb \<Rightarrow> Inl (AttributeError ''_java_executor_resource_requests'')
      | LocalBuilder e t \<Rightarrow> Inl (AttributeError ''requests''))"

text \<open>The two clears: the local branch binds the field to a new empty dictionary.\<close>

definition ResourceProfileBuilder_clearExecutorResourceRequests :: "addr \<Rightarrow> heap \<Rightarrow> heap" where
  "ResourceProfileBuilder_clearExecutorResourceRequests self s =
     (case builders s self of
        JavaBuilder j jb \<Rightarrow> jbuilder_clearExecutorResourceRequests jb s
      | LocalBuilder e t \<Rightarrow>
          (let (e', s1) = new_exec_dict Map.empty s
           in s1\<lparr>builders := (builders s1)(self := LocalBuilder e' t)\<rparr>))"

definition ResourceProfileBuilder_clearTaskResourceRequests :: "addr \<Rightarrow> heap \<Rightarrow> heap" where
  "ResourceProfileBuilder_clearTaskResourceRequests self s =
     (case builders s self of
        JavaBuilder j jb \<Rightarrow> jbuilder_clearTaskResourceRequests jb s
      | LocalBuilder e t \<Rightarrow>
          (let (t', s1) = new_task_dict Map.empty s
           in s1\<lparr>builders := (builders s1)(self := LocalBuilder e t')\<rparr>))"

definition ResourceProfileBuilder_taskResources :: "addr \<Rightarrow> heap \<Rightarrow> addr \<times> heap" where
  "ResourceProfileBuilder_taskResources self s =
     (case builders s self of
        JavaBuilder j jb \<Rightarrow>
          new_task_dict
            (\<lambda>k. map_option
                   (\<lambda>v. TaskResourceRequest_init (jtask_resourceName v) (jtask_amount v))
                   (jbuilder_taskResourcesJMap (jbuilders s jb) k)) s
      | LocalBuilder e t \<Rightarrow> (t, s))"

definition ResourceProfileBuilder_executorResources :: "addr \<Rightarrow> heap \<Rightarrow> addr \<times> heap" where
  "ResourceProfileBuilder_executorResources self s =
     (case builders s self of
        JavaBuilder j jb \<Rightarrow>
          new_exec_dict
            (\<lambda>k. map_option
                   (\<lambda>v. ExecutorResourceRequest_init (jexec_resourceName v) (jexec_amount v)
                          (jexec_discoveryScript v) (jexec_vendor v))
                   (jbuilder_executorResourcesJMap (jbuilders s jb) k)) s
      | LocalBuilder e t \<Rightarrow> (e, s))"

definition ResourceProfileBuilder_build :: "addr \<Rightarrow> heap \<Rightarrow> ResourceProfile \<times> heap" where
  "ResourceProfileBuilder_build self s =
     (case builders s self of
        JavaBuilder j jb \<Rightarrow>
          (let (jresourceProfile, s1) = jbuilder_build jb s
           in ResourceProfile_init (Some jresourceProfile) None None s1)
      | LocalBuilder e t \<Rightarrow> ResourceProfile_init None (Some e) (Some t) s)"

subsection \<open>What a caller observes\<close>

text \<open>
  An accessor returns a reference to a dictionary; what the caller sees at that moment
  is the content of the dictionary in the store the accessor leaves.
\<close>

definition builder_executorResources :: "addr \<Rightarrow> heap \<Rightarrow> exec_dict" where
  "builder_executorResources self s =
     (let (r, s') = ResourceProfileBuilder_executorResources self s in exec_dicts s' r)"

definition builder_taskResources :: "addr \<Rightarrow> heap \<Rightarrow> task_dict" where
  "builder_taskResources self s =
     (let (r, s') = ResourceProfileBuilder_taskResources self s in task_dicts s' r)"

definition profile_executorResources :: "ResourceProfile \<Rightarrow> heap \<Rightarrow> exec_dict" where
  "profile_executorResources p s =
     (let (r, s') = ResourceProfile_executorResources p s in exec_dicts s' r)"

definition profile_taskResources :: "ResourceProfile \<Rightarrow> heap \<Rightarrow> task_dict" where
  "profile_taskResources p s =
     (let (r, s') = ResourceProfile_taskResources p s in task_dicts s' r)"

text \<open>A builder in local mode: the store holds a \<open>LocalBuilder\<close> at its address.\<close>

fun is_local :: "ResourceProfileBuilder \<Rightarrow> bool" where
  "is_local (LocalBuilder e t) = True"
| "is_local (JavaBuilder j jb) = False"

text \<open>A fluent chain \<open>b.require(r1).require(r2)...\<close>; it stops at the first exception.\<close>

fun require_all :: "addr \<Rightarrow> resourceRequest list \<Rightarrow> heap \<Rightarrow> error + (addr \<times> heap)" where
  "require_all self [] s = Inr (self, s)"
| "require_all self (r # rs) s =
     (case ResourceProfileBuilder_require self r s of
        Inl err \<Rightarrow> Inl err
      | Inr (self', s') \<Rightarrow> require_all self' rs s')"

text \<open>The requirements a group supplies to each side, and the resource names it uses.\<close>

fun supplied_exec :: "resourceRequest \<Rightarrow> exec_dict" where
  "supplied_exec (ExecutorResourceRequests_obj rr) = exec_requests rr"
| "supplied_exec (TaskResourceRequests_obj rr) = Map.empty"
| "supplied_exec (ExecutorResourceRequest_obj r) = Map.empty"

fun supplied_task :: "resourceRequest \<Rightarrow> task_dict" where
  "supplied_task (TaskResourceRequests_obj rr) = task_requests rr"
| "supplied_task (ExecutorResourceRequests_obj rr) = Map.empty"
| "supplied_task (ExecutorResourceRequest_obj r) = Map.empty"

fun is_group :: "resourceRequest \<Rightarrow> bool" where
  "is_group (TaskResourceRequests_obj rr) = True"
| "is_group (ExecutorResourceRequests_obj rr) = True"
| "is_group (ExecutorResourceRequest_obj r) = False"

definition names :: "resourceRequest \<Rightarrow> string set" where
  "names r = dom (supplied_exec r) \<union> dom (supplied_task r)"

fun distinct_names :: "resourceRequest list \<Rightarrow> bool" where
  "distinct_names [] = True"
| "distinct_names (r # rs) = ((\<forall>r' \<in> set rs. names r \<inter> names r' = {}) \<and> distinct_names rs)"

text \<open>
  A JVM view for the examples: it takes a task map whose amount for cpus is a Java int,
  and an executor map whose amounts are Java longs.
\<close>

definition java_jvm :: jvm where
  "java_jvm =
     \<lparr>jvm_takes_task_requests =
        (\<lambda>reqs. case reqs ''cpus'' of
                  None \<Rightarrow> True
                | Some v \<Rightarrow> - (2 ^ 31) \<le> task_amount v \<and> task_amount v < 2 ^ 31),
      jvm_takes_executor_requests =
        (\<lambda>reqs. \<forall>v \<in> ran reqs. - (2 ^ 63) \<le> exec_amount v \<and> exec_amount v < 2 ^ 63)\<rparr>"

text \<open>A session without a JVM and nothing allocated, and some requirement groups.\<close>

definition no_jvm_heap :: heap where
  "no_jvm_heap =
     \<lparr>SparkContext_jvm = None,
      builders = (\<lambda>a. JavaBuilder java_jvm 0),
      exec_dicts = (\<lambda>a. Map.empty),
      task_dicts = (\<lambda>a. Map.empty),
      jbuilders = (\<lambda>a. \<lparr>jbuilder_executorResourcesJMap = Map.empty,
                        jbuilder_taskResourcesJMap = Map.empty\<rparr>),
      next_addr = 0,
      next_profile_id = 0\<rparr>"

definition gpu_exec :: ExecutorResourceRequests where
  "gpu_exec =
     \<lparr>java_executor_resource_requests = None,
      exec_requests = [''gpu'' \<mapsto> ExecutorResourceRequest_init ''gpu'' 2 '''' ''nvidia.com'']\<rparr>"

definition fpga_exec :: ExecutorResourceRequests where
  "fpga_exec =
     \<lparr>java_executor_resource_requests = None,
      exec_requests = [''fpga'' \<mapsto> ExecutorResourceRequest_init ''fpga'' 1 '''' '''']\<rparr>"

definition gpu_task :: TaskResourceRequests where
  "gpu_task =
     \<lparr>java_task_resource_requests = None,
      task_requests = [''gpu'' \<mapsto> TaskResourceRequest_init ''gpu'' 1]\<rparr>"

definition cpus_task :: TaskResourceRequests where
  "cpus_task =
     \<lparr>java_task_resource_requests = None,
      task_requests = [''cpus'' \<mapsto> TaskResourceRequest_init ''cpus'' 4]\<rparr>"

definition gpu_exec_more :: ExecutorResourceRequests where
  "gpu_exec_more =
     \<lparr>java_executor_resource_requests = None,
      exec_requests = [''gpu'' \<mapsto> ExecutorResourceRequest_init ''gpu'' 4 '''' ''nvidia.com'']\<rparr>"

definition gpu_task_more :: TaskResourceRequests where
  "gpu_task_more =
     \<lparr>java_task_resource_requests = None,
      task_requests = [''gpu'' \<mapsto> TaskResourceRequest_init ''gpu'' 2]\<rparr>"

text \<open>
  The store after \<open>b = ResourceProfileBuilder()\<close> without a JVM (the builder is at
  address 0), and after \<open>b.require(gpu_exec).require(gpu_task)\<close> on it.
\<close>

definition new_builder_heap :: heap where
  "new_builder_heap = snd (ResourceProfileBuilder_init no_jvm_heap)"

definition gpu_builder_heap :: heap where
  "gpu_builder_heap =
     (case require_all 0
             [ExecutorResourceRequests_obj gpu_exec, TaskResourceRequests_obj gpu_task]
             new_builder_heap of
        Inr (b, s) \<Rightarrow> s
      | Inl err \<Rightarrow> new_builder_heap)"

text \<open>
  The same session with the example JVM view, the store after
  \<open>b = ResourceProfileBuilder()\<close> in it (the builder is at address 0, its JVM builder at
  address 1), and two groups with amounts that this view does not take.
\<close>

definition jvm_heap :: heap where
  "jvm_heap = no_jvm_heap\<lparr>SparkContext_jvm := Some java_jvm\<rparr>"

definition jvm_builder_heap :: heap where
  "jvm_builder_heap = snd (ResourceProfileBuilder_init jvm_heap)"

definition huge_exec :: ExecutorResourceRequests where
  "huge_exec =
     \<lparr>java_executor_resource_requests = None,
      exec_requests = [''gpu'' \<mapsto> ExecutorResourceRequest_init ''gpu'' (2 ^ 63) '''' '''']\<rparr>"

definition huge_cpus_task :: TaskResourceRequests where
  "huge_cpus_task =
     \<lparr>java_task_resource_requests = None,
      task_requests = [''cpus'' \<mapsto> TaskResourceRequest_init ''cpus'' (2 ^ 31)]\<rparr>"

section \<open>Basic facts\<close>

lemmas store_defs =
  new_exec_dict_def new_task_dict_def exec_req_or_new_def task_req_or_new_def
  ResourceProfile_init_def ResourceProfileBuilder_init_def ResourceProfileBuilder_build_def
  ResourceProfileBuilder_clearExecutorResourceRequests_def
  ResourceProfileBuilder_clearTaskResourceRequests_def

lemmas example_defs =
  no_jvm_heap_def new_builder_heap_def gpu_builder_heap_def
  gpu_exec_def fpga_exec_def gpu_task_def cpus_task_def gpu_exec_more_def gpu_task_more_def

text \<open>What the accessors show of a local builder and of a local profile.\<close>

lemma builder_executorResources_local:
  "builders s self = LocalBuilder e t \<Longrightarrow> builder_executorResources self s = exec_dicts s e"
  by (simp add: builder_executorResources_def ResourceProfileBuilder_executorResources_def)

lemma builder_taskResources_local:
  "builders s self = LocalBuilder e t \<Longrightarrow> builder_taskResources self s = task_dicts s t"
  by (simp add: builder_taskResources_def ResourceProfileBuilder_taskResources_def)

lemma profile_executorResources_local:
  "profile_executorResources (LocalProfile e t) s = exec_dicts s e"
  by (simp add: profile_executorResources_def)

lemma profile_taskResources_local:
  "profile_taskResources (LocalProfile e t) s = task_dicts s t"
  by (simp add: profile_taskResources_def)

text \<open>A builder constructed without a JVM is local and owns two empty dictionaries.\<close>

lemma init_without_jvm:
  assumes "SparkContext_jvm s = None"
  shows "\<exists>self e t s'. ResourceProfileBuilder_init s = (self, s') \<and>
           builders s' self = LocalBuilder e t \<and>
           exec_dicts s' e = Map.empty \<and> task_dicts s' t = Map.empty"
  using assms by (simp add: store_defs Let_def)

lemma new_builder_heap_facts:
  "builders new_builder_heap 0 = LocalBuilder (Suc 0) 2"
  "exec_dicts new_builder_heap (Suc 0) = Map.empty"
  "task_dicts new_builder_heap 2 = Map.empty"
  by (simp_all add: store_defs example_defs)

lemma gpu_builder_heap_facts:
  "builders gpu_builder_heap 0 = LocalBuilder (Suc 0) 2"
  "exec_dicts gpu_builder_heap (Suc 0) =
     [''gpu'' \<mapsto> ExecutorResourceRequest_init ''gpu'' 2 '''' ''nvidia.com'']"
  "task_dicts gpu_builder_heap 2 = [''gpu'' \<mapsto> TaskResourceRequest_init ''gpu'' 1]"
  by (simp_all add: store_defs example_defs)

text \<open>
  On a JVM builder \<open>require\<close> can raise: a group without a handle whose map the JVM view
  does not take makes the construction of the remote group raise, and \<open>require\<close> with it.
  A group the view takes is forwarded, and \<open>require\<close> returns.
\<close>

lemma jvm_builder_heap_facts:
  "builders jvm_builder_heap 0 = JavaBuilder java_jvm (Suc 0)"
  by (simp add: jvm_builder_heap_def jvm_heap_def no_jvm_heap_def
        ResourceProfileBuilder_init_def jbuilder_new_def Let_def)

lemma java_jvm_takes:
  "jvm_takes_executor_requests java_jvm (exec_requests gpu_exec)"
  "jvm_takes_task_requests java_jvm (task_requests gpu_task)"
  "\<not> jvm_takes_executor_requests java_jvm (exec_requests huge_exec)"
  "\<not> jvm_takes_task_requests java_jvm (task_requests huge_cpus_task)"
  by (simp_all add: java_jvm_def gpu_exec_def gpu_task_def huge_exec_def huge_cpus_task_def
        ExecutorResourceRequest_init_def TaskResourceRequest_init_def)

lemma require_on_jvm_builder_raises:
  "ResourceProfileBuilder_require 0 (ExecutorResourceRequests_obj huge_exec) jvm_builder_heap =
     Inl (Py4JError ''ExecutorResourceRequests'')"
  "ResourceProfileBuilder_require 0 (TaskResourceRequests_obj huge_cpus_task) jvm_builder_heap =
     Inl (Py4JError ''TaskResourceRequests'')"
  using java_jvm_takes(3,4)
  by (simp_all add: jvm_builder_heap_facts ExecutorResourceRequests_init_def
        TaskResourceRequests_init_def huge_exec_def huge_cpus_task_def)

lemma require_on_jvm_builder_returns:
  "ResourceProfileBuilder_require 0 (ExecutorResourceRequests_obj gpu_exec) jvm_builder_heap =
     Inr (0, jbuilder_require_exec (Suc 0) (map_option to_jexec \<circ> exec_requests gpu_exec)
               jvm_builder_heap)"
  "ResourceProfileBuilder_require 0 (TaskResourceRequests_obj gpu_task) jvm_builder_heap =
     Inr (0, jbuilder_require_task (Suc 0) (map_option to_jtask \<circ> task_requests gpu_task)
               jvm_builder_heap)"
  using java_jvm_takes(1,2)
  by (simp_all add: jvm_builder_heap_facts ExecutorResourceRequests_init_def
        TaskResourceRequests_init_def gpu_exec_def gpu_task_def)

text \<open>
  A chain of \<open>require\<close> calls with groups on a local builder runs to its end, keeps the
  builder bound to the same two dictionaries, and has merged the groups into them from
  left to right.
\<close>

lemma require_all_local:
  assumes "builders s self = LocalBuilder e t" and "\<forall>r \<in> set rs. is_group r"
  shows "\<exists>s'. require_all self rs s = Inr (self, s') \<and>
           builders s' self = LocalBuilder e t \<and>
           exec_dicts s' e = foldl (++) (exec_dicts s e) (map supplied_exec rs) \<and>
           task_dicts s' t = foldl (++) (task_dicts s t) (map supplied_task rs)"
  using assms
proof (induction rs arbitrary: s)
  case Nil
  then show ?case by simp
next
  case (Cons r rs)
  have groups: "\<forall>r \<in> set rs. is_group r" using Cons.prems by simp
  show ?case
  proof (cases r)
    case (TaskResourceRequests_obj g)
    let ?s1 = "s\<lparr>task_dicts := (task_dicts s)(t := task_dicts s t ++ task_requests g)\<rparr>"
    have "builders ?s1 self = LocalBuilder e t" using Cons.prems by simp
    then obtain s' where
      "require_all self rs ?s1 = Inr (self, s')" "builders s' self = LocalBuilder e t"
      "exec_dicts s' e = foldl (++) (exec_dicts ?s1 e) (map supplied_exec rs)"
      "task_dicts s' t = foldl (++) (task_dicts ?s1 t) (map supplied_task rs)"
      using Cons.IH groups by blast
    then show ?thesis using Cons.prems TaskResourceRequests_obj by simp
  next
    case (ExecutorResourceRequests_obj g)
    let ?s1 = "s\<lparr>exec_dicts := (exec_dicts s)(e := exec_dicts s e ++ exec_requests g)\<rparr>"
    have "builders ?s1 self = LocalBuilder e t" using Cons.prems by simp
    then obtain s' where
      "require_all self rs ?s1 = Inr (self, s')" "builders s' self = LocalBuilder e t"
      "exec_dicts s' e = foldl (++) (exec_dicts ?s1 e) (map supplied_exec rs)"
      "task_dicts s' t = foldl (++) (task_dicts ?s1 t) (map supplied_task rs)"
      using Cons.IH groups by blast
    then show ?thesis using Cons.prems ExecutorResourceRequests_obj by simp
  next
    case (ExecutorResourceRequest_obj x)
    then show ?thesis using Cons.prems by simp
  qed
qed

lemma dom_supplied_exec: "dom (supplied_exec r) \<subseteq> names r"
  by (simp add: names_def)

lemma dom_supplied_task: "dom (supplied_task r) \<subseteq> names r"
  by (simp add: names_def)

text \<open>
  Merging dictionaries whose key sets are pairwise disjoint gives the union of their
  entries.
\<close>

lemma graph_foldl_supplied:
  assumes sub: "\<And>r. dom (f r) \<subseteq> names r"
  shows "(\<forall>r \<in> set rs. dom m \<inter> dom (f r) = {}) \<Longrightarrow> distinct_names rs \<Longrightarrow>
         Map.graph (foldl (++) m (map f rs)) = Map.graph m \<union> (\<Union>r \<in> set rs. Map.graph (f r))"
proof (induction rs arbitrary: m)
  case Nil
  then show ?case by simp
next
  case (Cons a rs)
  have d0: "dom m \<inter> dom (f a) = {}" using Cons.prems(1) by simp
  have d1: "\<forall>r \<in> set rs. dom (f a) \<inter> dom (f r) = {}"
  proof
    fix r assume "r \<in> set rs"
    then have "names a \<inter> names r = {}" using Cons.prems(2) by simp
    then show "dom (f a) \<inter> dom (f r) = {}" using sub[of a] sub[of r] by blast
  qed
  have d2: "\<forall>r \<in> set rs. dom (m ++ f a) \<inter> dom (f r) = {}"
  proof
    fix r assume r: "r \<in> set rs"
    have "dom m \<inter> dom (f r) = {}" using Cons.prems(1) r by simp
    moreover have "dom (f a) \<inter> dom (f r) = {}" using d1 r by simp
    ultimately show "dom (m ++ f a) \<inter> dom (f r) = {}" by (simp add: Int_Un_distrib2)
  qed
  have d3: "distinct_names rs" using Cons.prems(2) by simp
  have "Map.graph (foldl (++) (m ++ f a) (map f rs)) =
          Map.graph (m ++ f a) \<union> (\<Union>r \<in> set rs. Map.graph (f r))"
    using Cons.IH[OF d2 d3] .
  then show ?case using graph_map_add[OF d0] by auto
qed

section \<open>The claims\<close>

text \<open>
  Claim C1 (\<open>build\<close>, \<open>require\<close>, \<open>build\<close> gives two independent snapshots). The code does
  not do this. Without a JVM, \<open>b = ResourceProfileBuilder()\<close>, then
  \<open>b.require(gpu_exec)\<close>, \<open>p1 = b.build\<close>, \<open>b.require(fpga_exec)\<close>, \<open>p2 = b.build\<close>:
  \<open>build\<close> hands the builder's non-empty executor dictionary itself to the profile, and
  the second \<open>require\<close> updates that dictionary in place. Right after the first \<open>build\<close>
  the executor resources of \<open>p1\<close> are the entry for gpu alone; after the second
  \<open>require\<close> they hold the entry for fpga as well.
\<close>

theorem build_shares_dictionary_with_builder:
  "(case ResourceProfileBuilder_init no_jvm_heap of (b, s1) \<Rightarrow>
     (case ResourceProfileBuilder_require b (ExecutorResourceRequests_obj gpu_exec) s1 of
        Inl err \<Rightarrow> False
      | Inr (b2, s2) \<Rightarrow>
         (case ResourceProfileBuilder_build b2 s2 of (p1, s3) \<Rightarrow>
           (case ResourceProfileBuilder_require b2 (ExecutorResourceRequests_obj fpga_exec) s3 of
              Inl err \<Rightarrow> False
            | Inr (b4, s4) \<Rightarrow>
               (case ResourceProfileBuilder_build b4 s4 of (p2, s5) \<Rightarrow>
                  dom (profile_executorResources p1 s3) = {''gpu''} \<and>
                  profile_executorResources p1 s3 ''fpga'' = None \<and>
                  dom (profile_executorResources p1 s5) = {''gpu'', ''fpga''} \<and>
                  profile_executorResources p1 s5 ''fpga'' =
                    Some (ExecutorResourceRequest_init ''fpga'' 1 '''' '''') \<and>
                  profile_executorResources p1 s5 = profile_executorResources p2 s5)))))"
  by (simp add: store_defs example_defs profile_executorResources_def insert_commute)

text \<open>
  Claim C2. Reading \<open>id\<close> of a profile constructed without a handle raises the
  \<open>RuntimeError\<close> that stands for the spec's \<open>NotRegisteredError\<close>, whatever dictionaries
  it was given; reading \<open>id\<close> of a profile constructed on a handle returns the identity
  the handle reports. For the profiles \<open>build\<close> returns: a local builder's profile fails,
  a JVM builder's profile returns the identity the engine assigned at \<open>build\<close>.
\<close>

theorem id_fails_locally_and_succeeds_on_a_handle:
  "ResourceProfile_id (fst (ResourceProfile_init None exec_req task_req s)) =
     Inl NotRegisteredError \<and>
   ResourceProfile_id (fst (ResourceProfile_init (Some jrp) exec_req task_req s)) =
     Inr (jprofile_id jrp) \<and>
   ResourceProfile_id (fst (ResourceProfileBuilder_build self s)) =
     (if is_local (builders s self) then Inl NotRegisteredError else Inr (next_profile_id s))"
proof (cases "builders s self")
  case (JavaBuilder j jb)
  then show ?thesis
    by (simp add: ResourceProfile_init_def ResourceProfileBuilder_build_def jbuilder_build_def
          split: prod.splits)
next
  case (LocalBuilder e t)
  then show ?thesis
    by (simp add: ResourceProfile_init_def ResourceProfileBuilder_build_def split: prod.splits)
qed

text \<open>
  Claim C3. On a local builder that holds no requirement yet (as after construction),
  a chain of \<open>require\<close> calls with requirement groups whose resource names are pairwise
  distinct runs to its end, and afterwards \<open>executorResources\<close> and \<open>taskResources\<close> are
  exactly the union of the entries the groups supplied to that side.
\<close>

theorem require_distinct_names_is_union:
  assumes local: "builders s self = LocalBuilder e t"
    and no_exec: "exec_dicts s e = Map.empty"
    and no_task: "task_dicts s t = Map.empty"
    and groups: "\<forall>r \<in> set rs. is_group r"
    and distinct: "distinct_names rs"
  shows "\<exists>s'. require_all self rs s = Inr (self, s') \<and>
           Map.graph (builder_executorResources self s') =
             (\<Union>r \<in> set rs. Map.graph (supplied_exec r)) \<and>
           Map.graph (builder_taskResources self s') =
             (\<Union>r \<in> set rs. Map.graph (supplied_task r))"
proof -
  obtain s' where run: "require_all self rs s = Inr (self, s')"
    and b: "builders s' self = LocalBuilder e t"
    and ex: "exec_dicts s' e = foldl (++) Map.empty (map supplied_exec rs)"
    and ta: "task_dicts s' t = foldl (++) Map.empty (map supplied_task rs)"
    using require_all_local[OF local groups] no_exec no_task by auto
  have "Map.graph (foldl (++) Map.empty (map supplied_exec rs)) =
          Map.graph Map.empty \<union> (\<Union>r \<in> set rs. Map.graph (supplied_exec r))"
    by (rule graph_foldl_supplied) (simp_all add: dom_supplied_exec distinct)
  moreover have "Map.graph (foldl (++) Map.empty (map supplied_task rs)) =
          Map.graph Map.empty \<union> (\<Union>r \<in> set rs. Map.graph (supplied_task r))"
    by (rule graph_foldl_supplied) (simp_all add: dom_supplied_task distinct)
  ultimately show ?thesis
    using run ex ta
    by (simp add: builder_executorResources_local[OF b] builder_taskResources_local[OF b])
qed

theorem require_distinct_names_is_union_witness:
  "\<exists>s'. require_all 0
           [ExecutorResourceRequests_obj gpu_exec, TaskResourceRequests_obj cpus_task,
            ExecutorResourceRequests_obj fpga_exec] new_builder_heap = Inr (0, s') \<and>
         Map.graph (builder_executorResources 0 s') =
           {(''gpu'', ExecutorResourceRequest_init ''gpu'' 2 '''' ''nvidia.com''),
            (''fpga'', ExecutorResourceRequest_init ''fpga'' 1 '''' '''')} \<and>
         Map.graph (builder_taskResources 0 s') =
           {(''cpus'', TaskResourceRequest_init ''cpus'' 4)}"
proof -
  let ?rs = "[ExecutorResourceRequests_obj gpu_exec, TaskResourceRequests_obj cpus_task,
              ExecutorResourceRequests_obj fpga_exec]"
  have h4: "\<forall>r \<in> set ?rs. is_group r" by simp
  have h5: "distinct_names ?rs"
    by (simp add: names_def gpu_exec_def cpus_task_def fpga_exec_def)
  have ex: "(\<Union>r \<in> set ?rs. Map.graph (supplied_exec r)) =
          {(''gpu'', ExecutorResourceRequest_init ''gpu'' 2 '''' ''nvidia.com''),
           (''fpga'', ExecutorResourceRequest_init ''fpga'' 1 '''' '''')}"
    by (simp add: gpu_exec_def fpga_exec_def insert_commute)
  have ta: "(\<Union>r \<in> set ?rs. Map.graph (supplied_task r)) =
          {(''cpus'', TaskResourceRequest_init ''cpus'' 4)}"
    by (simp add: cpus_task_def)
  show ?thesis
    using require_distinct_names_is_union[OF new_builder_heap_facts h4 h5]
    unfolding ex ta .
qed

text \<open>
  Claim C4. Two \<open>require\<close> calls on the same side of a local builder: after the second
  call every resource name of the second group is bound to the second group's
  requirement, also where the first group had bound it, and every other name is bound
  as it was after the first call, which had bound its own names over the builder's
  earlier entries in the same way. The other side does not change.
\<close>

theorem require_same_name_last_wins:
  assumes local: "builders s self = LocalBuilder e t"
  shows "(\<exists>s1 s2.
            ResourceProfileBuilder_require self (ExecutorResourceRequests_obj g1) s =
              Inr (self, s1) \<and>
            ResourceProfileBuilder_require self (ExecutorResourceRequests_obj g2) s1 =
              Inr (self, s2) \<and>
            (\<forall>k. builder_executorResources self s1 k =
                   (if k \<in> dom (exec_requests g1) then exec_requests g1 k
                    else builder_executorResources self s k)) \<and>
            (\<forall>k. builder_executorResources self s2 k =
                   (if k \<in> dom (exec_requests g2) then exec_requests g2 k
                    else builder_executorResources self s1 k)) \<and>
            builder_taskResources self s2 = builder_taskResources self s) \<and>
         (\<exists>s1 s2.
            ResourceProfileBuilder_require self (TaskResourceRequests_obj h1) s =
              Inr (self, s1) \<and>
            ResourceProfileBuilder_require self (TaskResourceRequests_obj h2) s1 =
              Inr (self, s2) \<and>
            (\<forall>k. builder_taskResources self s1 k =
                   (if k \<in> dom (task_requests h1) then task_requests h1 k
                    else builder_taskResources self s k)) \<and>
            (\<forall>k. builder_taskResources self s2 k =
                   (if k \<in> dom (task_requests h2) then task_requests h2 k
                    else builder_taskResources self s1 k)) \<and>
            builder_executorResources self s2 = builder_executorResources self s)"
proof -
  have add: "\<And>(m :: string \<rightharpoonup> 'v) n k. (m ++ n) k = (if k \<in> dom n then n k else m k)"
    by (auto simp: map_add_def split: option.splits)
  show ?thesis
    using local
    by (simp add: builder_executorResources_def builder_taskResources_def
          ResourceProfileBuilder_executorResources_def ResourceProfileBuilder_taskResources_def
          add)
qed

theorem require_same_name_last_wins_witness:
  "\<exists>s1 s2.
     ResourceProfileBuilder_require 0 (ExecutorResourceRequests_obj gpu_exec)
       new_builder_heap = Inr (0, s1) \<and>
     ResourceProfileBuilder_require 0 (ExecutorResourceRequests_obj gpu_exec_more) s1 =
       Inr (0, s2) \<and>
     builder_executorResources 0 s1 ''gpu'' =
       Some (ExecutorResourceRequest_init ''gpu'' 2 '''' ''nvidia.com'') \<and>
     builder_executorResources 0 s2 ''gpu'' =
       Some (ExecutorResourceRequest_init ''gpu'' 4 '''' ''nvidia.com'')"
proof -
  from require_same_name_last_wins[OF new_builder_heap_facts(1),
      of gpu_exec gpu_exec_more gpu_task gpu_task_more]
  obtain s1 s2 where
    r1: "ResourceProfileBuilder_require 0 (ExecutorResourceRequests_obj gpu_exec)
           new_builder_heap = Inr (0, s1)"
    and r2: "ResourceProfileBuilder_require 0 (ExecutorResourceRequests_obj gpu_exec_more) s1 =
           Inr (0, s2)"
    and v1: "\<forall>k. builder_executorResources 0 s1 k =
                   (if k \<in> dom (exec_requests gpu_exec) then exec_requests gpu_exec k
                    else builder_executorResources 0 new_builder_heap k)"
    and v2: "\<forall>k. builder_executorResources 0 s2 k =
                   (if k \<in> dom (exec_requests gpu_exec_more) then exec_requests gpu_exec_more k
                    else builder_executorResources 0 s1 k)"
    by blast
  have "builder_executorResources 0 s1 ''gpu'' =
          Some (ExecutorResourceRequest_init ''gpu'' 2 '''' ''nvidia.com'')"
    using v1[rule_format, of "''gpu''"] by (simp add: gpu_exec_def)
  moreover have "builder_executorResources 0 s2 ''gpu'' =
          Some (ExecutorResourceRequest_init ''gpu'' 4 '''' ''nvidia.com'')"
    using v2[rule_format, of "''gpu''"] by (simp add: gpu_exec_more_def)
  ultimately show ?thesis using r1 r2 by blast
qed

text \<open>
  Claim C5. On a local builder in any state, after \<open>clearExecutorResourceRequests\<close> the
  accessor \<open>executorResources\<close> shows the empty dictionary and \<open>taskResources\<close> shows what
  it showed before; after \<open>clearTaskResourceRequests\<close> it is the other way round.
\<close>

theorem clear_empties_one_side:
  assumes local: "builders s self = LocalBuilder e t"
  shows "builder_executorResources self
           (ResourceProfileBuilder_clearExecutorResourceRequests self s) = Map.empty \<and>
         builder_taskResources self
           (ResourceProfileBuilder_clearExecutorResourceRequests self s) =
           builder_taskResources self s \<and>
         builder_taskResources self
           (ResourceProfileBuilder_clearTaskResourceRequests self s) = Map.empty \<and>
         builder_executorResources self
           (ResourceProfileBuilder_clearTaskResourceRequests self s) =
           builder_executorResources self s"
proof -
  let ?ce = "ResourceProfileBuilder_clearExecutorResourceRequests self s"
  let ?ct = "ResourceProfileBuilder_clearTaskResourceRequests self s"
  have ce: "builders ?ce self = LocalBuilder (next_addr s) t"
    "exec_dicts ?ce (next_addr s) = Map.empty" "task_dicts ?ce = task_dicts s"
    using local
    by (simp_all add: ResourceProfileBuilder_clearExecutorResourceRequests_def new_exec_dict_def)
  have ct: "builders ?ct self = LocalBuilder e (next_addr s)"
    "task_dicts ?ct (next_addr s) = Map.empty" "exec_dicts ?ct = exec_dicts s"
    using local
    by (simp_all add: ResourceProfileBuilder_clearTaskResourceRequests_def new_task_dict_def)
  show ?thesis
    by (simp add: builder_executorResources_local[OF ce(1)] builder_taskResources_local[OF ce(1)]
          builder_executorResources_local[OF ct(1)] builder_taskResources_local[OF ct(1)]
          builder_executorResources_local[OF local] builder_taskResources_local[OF local]
          ce(2,3) ct(2,3))
qed

theorem clear_empties_one_side_witness:
  "builder_executorResources 0
     (ResourceProfileBuilder_clearExecutorResourceRequests 0 gpu_builder_heap) = Map.empty \<and>
   builder_taskResources 0
     (ResourceProfileBuilder_clearExecutorResourceRequests 0 gpu_builder_heap) =
     [''gpu'' \<mapsto> TaskResourceRequest_init ''gpu'' 1] \<and>
   builder_taskResources 0
     (ResourceProfileBuilder_clearTaskResourceRequests 0 gpu_builder_heap) = Map.empty \<and>
   builder_executorResources 0
     (ResourceProfileBuilder_clearTaskResourceRequests 0 gpu_builder_heap) =
     [''gpu'' \<mapsto> ExecutorResourceRequest_init ''gpu'' 2 '''' ''nvidia.com'']"
  using clear_empties_one_side[OF gpu_builder_heap_facts(1)]
  by (simp add: builder_executorResources_local[OF gpu_builder_heap_facts(1)]
        builder_taskResources_local[OF gpu_builder_heap_facts(1)] gpu_builder_heap_facts(2,3))

text \<open>
  Claim C6. On a local builder, \<open>require\<close> with a task group returns, leaves what
  \<open>executorResources\<close> shows unchanged and merges the group into what \<open>taskResources\<close>
  shows; \<open>require\<close> with an executor group returns, leaves \<open>taskResources\<close> unchanged and
  merges the group into \<open>executorResources\<close>.
\<close>

theorem require_updates_one_side:
  assumes local: "builders s self = LocalBuilder e t"
  shows "(\<exists>s'. ResourceProfileBuilder_require self (TaskResourceRequests_obj g) s =
                 Inr (self, s') \<and>
               builder_executorResources self s' = builder_executorResources self s \<and>
               builder_taskResources self s' = builder_taskResources self s ++ task_requests g) \<and>
         (\<exists>s'. ResourceProfileBuilder_require self (ExecutorResourceRequests_obj h) s =
                 Inr (self, s') \<and>
               builder_taskResources self s' = builder_taskResources self s \<and>
               builder_executorResources self s' =
                 builder_executorResources self s ++ exec_requests h)"
  using local
  by (simp add: builder_executorResources_def builder_taskResources_def
        ResourceProfileBuilder_executorResources_def ResourceProfileBuilder_taskResources_def)

theorem require_updates_one_side_witness:
  "(\<exists>s'. ResourceProfileBuilder_require 0 (TaskResourceRequests_obj cpus_task)
            gpu_builder_heap = Inr (0, s') \<and>
          builder_executorResources 0 s' =
            [''gpu'' \<mapsto> ExecutorResourceRequest_init ''gpu'' 2 '''' ''nvidia.com''] \<and>
          builder_taskResources 0 s' ''cpus'' = Some (TaskResourceRequest_init ''cpus'' 4)) \<and>
   (\<exists>s'. ResourceProfileBuilder_require 0 (ExecutorResourceRequests_obj fpga_exec)
            gpu_builder_heap = Inr (0, s') \<and>
          builder_taskResources 0 s' = [''gpu'' \<mapsto> TaskResourceRequest_init ''gpu'' 1] \<and>
          builder_executorResources 0 s' ''fpga'' =
            Some (ExecutorResourceRequest_init ''fpga'' 1 '''' ''''))"
  using require_updates_one_side[OF gpu_builder_heap_facts(1), of cpus_task fpga_exec]
  by (simp add: builder_executorResources_local[OF gpu_builder_heap_facts(1)]
        builder_taskResources_local[OF gpu_builder_heap_facts(1)] gpu_builder_heap_facts
        cpus_task_def fpga_exec_def)

text \<open>
  Claim C7. On a local builder, the profile that \<open>build\<close> returns shows, in the store
  \<open>build\<close> leaves, the executor and task resources that the builder showed when \<open>build\<close>
  was called.
\<close>

theorem build_shows_accumulated_maps:
  assumes local: "builders s self = LocalBuilder e t"
  shows "(case ResourceProfileBuilder_build self s of (p, s') \<Rightarrow>
            profile_executorResources p s' = builder_executorResources self s \<and>
            profile_taskResources p s' = builder_taskResources self s)"
proof -
  obtain e' s1 where ex: "exec_req_or_new (Some e) s = (e', s1)" by force
  obtain t' s2 where ta: "task_req_or_new (Some t) s1 = (t', s2)" by force
  have build: "ResourceProfileBuilder_build self s = (LocalProfile e' t', s2)"
    using local ex ta by (simp add: ResourceProfileBuilder_build_def ResourceProfile_init_def)
  have e1: "exec_dicts s1 e' = exec_dicts s e" and t1: "task_dicts s1 = task_dicts s"
    using ex by (auto simp: exec_req_or_new_def new_exec_dict_def split: if_splits)
  have e2: "exec_dicts s2 = exec_dicts s1" and t2: "task_dicts s2 t' = task_dicts s1 t"
    using ta by (auto simp: task_req_or_new_def new_task_dict_def split: if_splits)
  show ?thesis
    by (simp add: build profile_executorResources_local profile_taskResources_local
          builder_executorResources_local[OF local] builder_taskResources_local[OF local]
          e1 e2 t1 t2)
qed

theorem build_shows_accumulated_maps_witness:
  "(case ResourceProfileBuilder_build 0 gpu_builder_heap of (p, s') \<Rightarrow>
      profile_executorResources p s' =
        [''gpu'' \<mapsto> ExecutorResourceRequest_init ''gpu'' 2 '''' ''nvidia.com''] \<and>
      profile_taskResources p s' = [''gpu'' \<mapsto> TaskResourceRequest_init ''gpu'' 1])"
  using build_shows_accumulated_maps[OF gpu_builder_heap_facts(1)]
  by (simp add: builder_executorResources_local[OF gpu_builder_heap_facts(1)]
        builder_taskResources_local[OF gpu_builder_heap_facts(1)] gpu_builder_heap_facts(2,3))

text \<open>
  Claim C8. For every builder, local or on a JVM builder, and every argument: whatever
  \<open>require\<close> returns is the builder it was called on. On a local builder \<open>require\<close> with a
  task group or an executor group does return. On a JVM builder the call goes over the
  bridge and may raise instead of returning.
\<close>

theorem require_returns_self:
  "(\<forall>b s'. ResourceProfileBuilder_require self r s = Inr (b, s') \<longrightarrow> b = self) \<and>
   (is_local (builders s self) \<and> is_group r \<longrightarrow>
      (\<exists>s'. ResourceProfileBuilder_require self r s = Inr (self, s')))"
proof (cases "builders s self")
  case (JavaBuilder j jb)
  show ?thesis
  proof (cases r)
    case (TaskResourceRequests_obj g)
    then show ?thesis
      using JavaBuilder by (auto split: option.splits sum.splits)
  next
    case (ExecutorResourceRequests_obj h)
    then show ?thesis
      using JavaBuilder by (auto split: option.splits sum.splits)
  next
    case (ExecutorResourceRequest_obj x)
    then show ?thesis using JavaBuilder by simp
  qed
next
  case (LocalBuilder e t)
  then show ?thesis by (cases r) simp_all
qed

theorem require_returns_self_witness:
  "(\<exists>s'. ResourceProfileBuilder_require 0 (ExecutorResourceRequests_obj gpu_exec)
            new_builder_heap = Inr (0, s')) \<and>
   (\<exists>s'. ResourceProfileBuilder_require 0 (TaskResourceRequests_obj gpu_task)
            new_builder_heap = Inr (0, s')) \<and>
   (\<exists>s'. ResourceProfileBuilder_require 0 (ExecutorResourceRequests_obj gpu_exec)
            jvm_builder_heap = Inr (0, s')) \<and>
   (\<exists>s'. ResourceProfileBuilder_require 0 (TaskResourceRequests_obj gpu_task)
            jvm_builder_heap = Inr (0, s'))"
proof -
  have loc: "is_local (builders new_builder_heap 0)"
    by (simp add: new_builder_heap_facts(1))
  obtain b1 s1 where r1:
    "ResourceProfileBuilder_require 0 (ExecutorResourceRequests_obj gpu_exec)
       jvm_builder_heap = Inr (b1, s1)"
    using require_on_jvm_builder_returns(1) by blast
  obtain b2 s2 where r2:
    "ResourceProfileBuilder_require 0 (TaskResourceRequests_obj gpu_task)
       jvm_builder_heap = Inr (b2, s2)"
    using require_on_jvm_builder_returns(2) by blast
  have "b1 = 0"
    using require_returns_self[of 0 "ExecutorResourceRequests_obj gpu_exec" jvm_builder_heap] r1
    by blast
  moreover have "b2 = 0"
    using require_returns_self[of 0 "TaskResourceRequests_obj gpu_task" jvm_builder_heap] r2
    by blast
  moreover have "\<exists>s'. ResourceProfileBuilder_require 0 (ExecutorResourceRequests_obj gpu_exec)
            new_builder_heap = Inr (0, s')"
    using require_returns_self[of 0 "ExecutorResourceRequests_obj gpu_exec" new_builder_heap] loc
    by simp
  moreover have "\<exists>s'. ResourceProfileBuilder_require 0 (TaskResourceRequests_obj gpu_task)
            new_builder_heap = Inr (0, s')"
    using require_returns_self[of 0 "TaskResourceRequests_obj gpu_task" new_builder_heap] loc
    by simp
  ultimately show ?thesis using r1 r2 by blast
qed

text \<open>
  Claim C9. On a local builder, \<open>build\<close> leaves what the builder's accessors
  \<open>executorResources\<close> and \<open>taskResources\<close> show as it was before the call.
\<close>

theorem build_leaves_builder_unchanged:
  assumes local: "builders s self = LocalBuilder e t"
  shows "builder_executorResources self (snd (ResourceProfileBuilder_build self s)) =
           builder_executorResources self s \<and>
         builder_taskResources self (snd (ResourceProfileBuilder_build self s)) =
           builder_taskResources self s"
proof -
  let ?s' = "snd (ResourceProfileBuilder_build self s)"
  have b: "builders ?s' self = LocalBuilder e t"
    using local
    by (simp add: ResourceProfileBuilder_build_def ResourceProfile_init_def
          exec_req_or_new_def task_req_or_new_def new_exec_dict_def new_task_dict_def)
  have ex: "exec_dicts ?s' e = exec_dicts s e"
    using local
    by (simp add: ResourceProfileBuilder_build_def ResourceProfile_init_def
          exec_req_or_new_def task_req_or_new_def new_exec_dict_def new_task_dict_def)
  have ta: "task_dicts ?s' t = task_dicts s t"
    using local
    by (simp add: ResourceProfileBuilder_build_def ResourceProfile_init_def
          exec_req_or_new_def task_req_or_new_def new_exec_dict_def new_task_dict_def)
  show ?thesis
    by (simp add: builder_executorResources_local[OF b] builder_taskResources_local[OF b]
          builder_executorResources_local[OF local] builder_taskResources_local[OF local] ex ta)
qed

theorem build_leaves_builder_unchanged_witness:
  "builder_executorResources 0 (snd (ResourceProfileBuilder_build 0 gpu_builder_heap)) =
     [''gpu'' \<mapsto> ExecutorResourceRequest_init ''gpu'' 2 '''' ''nvidia.com''] \<and>
   builder_taskResources 0 (snd (ResourceProfileBuilder_build 0 gpu_builder_heap)) =
     [''gpu'' \<mapsto> TaskResourceRequest_init ''gpu'' 1]"
  using build_leaves_builder_unchanged[OF gpu_builder_heap_facts(1)]
  by (simp add: builder_executorResources_local[OF gpu_builder_heap_facts(1)]
        builder_taskResources_local[OF gpu_builder_heap_facts(1)] gpu_builder_heap_facts(2,3))

text \<open>
  Claim C10. \<open>require\<close> looks only at whether its argument is an instance of
  \<open>TaskResourceRequests\<close>. On a local builder every other argument goes through the
  executor branch: an object with a \<open>requests\<close> mapping has it merged into the executor
  dictionary, and a bare \<open>ExecutorResourceRequest\<close>, which the declared type admits and
  which has no such mapping, makes the call raise \<open>AttributeError\<close>. On any builder a
  bare \<open>ExecutorResourceRequest\<close> makes \<open>require\<close> raise \<open>AttributeError\<close>.
\<close>

theorem require_dispatches_on_isinstance:
  assumes local: "builders s self = LocalBuilder e t"
    and other: "\<not> isinstance_TaskResourceRequests r"
  shows "((\<exists>g. r = ExecutorResourceRequests_obj g \<and>
             ResourceProfileBuilder_require self r s =
               Inr (self,
                    s\<lparr>exec_dicts := (exec_dicts s)(e := exec_dicts s e ++ exec_requests g)\<rparr>)) \<or>
          (\<exists>x. r = ExecutorResourceRequest_obj x \<and>
             ResourceProfileBuilder_require self r s = Inl (AttributeError ''requests''))) \<and>
         (\<forall>b x h. \<exists>a. ResourceProfileBuilder_require b (ExecutorResourceRequest_obj x) h =
                        Inl (AttributeError a))"
proof
  show "(\<exists>g. r = ExecutorResourceRequests_obj g \<and>
             ResourceProfileBuilder_require self r s =
               Inr (self,
                    s\<lparr>exec_dicts := (exec_dicts s)(e := exec_dicts s e ++ exec_requests g)\<rparr>)) \<or>
          (\<exists>x. r = ExecutorResourceRequest_obj x \<and>
             ResourceProfileBuilder_require self r s = Inl (AttributeError ''requests''))"
    using local other by (cases r) simp_all
next
  show "\<forall>b x h. \<exists>a. ResourceProfileBuilder_require b (ExecutorResourceRequest_obj x) h =
                        Inl (AttributeError a)"
  proof (intro allI)
    fix b x h
    show "\<exists>a. ResourceProfileBuilder_require b (ExecutorResourceRequest_obj x) h =
                 Inl (AttributeError a)"
      by (cases "builders h b") simp_all
  qed
qed

theorem require_dispatches_on_isinstance_witness:
  "ResourceProfileBuilder_require 0
     (ExecutorResourceRequest_obj (ExecutorResourceRequest_init ''gpu'' 2 '''' ''nvidia.com''))
     new_builder_heap = Inl (AttributeError ''requests'')"
proof -
  let ?r = "ExecutorResourceRequest_obj
              (ExecutorResourceRequest_init ''gpu'' 2 '''' ''nvidia.com'')"
  have other: "\<not> isinstance_TaskResourceRequests ?r" by simp
  from require_dispatches_on_isinstance[OF new_builder_heap_facts(1) other]
  show ?thesis by auto
qed

end
